theory Spec2Isabelle
  imports Main
begin

section \<open>Data model\<close>

text \<open>
  Times are milliseconds since the epoch, as \<^verbatim>\<open>Date.now()\<close> returns them. A stored
  \<^verbatim>\<open>Date\<close> is compared with them through its numeric value, so it is modelled by that value.
\<close>

type_synonym time = int

text \<open>
  The document of the \<^verbatim>\<open>User\<close> model: the schema fields, with \<^verbatim>\<open>_id\<close> as \<open>uid\<close>.
  \<open>password\<close> holds the bcrypt hash. \<open>failedLoginAttempts\<close> is a number that the code
  only sets to 0 and increments by 1, an integer here. \<open>lockUntil\<close> is \<^verbatim>\<open>null\<close> (the
  schema default, \<open>None\<close>) or a date.
\<close>

record user =
  uid :: string
  email :: string
  password :: string
  name :: string
  failedLoginAttempts :: int
  lockUntil :: "time option"

text \<open>
  \<^verbatim>\<open>userSchema.methods.isLocked\<close>:
  \<^verbatim>\<open>return !!(this.lockUntil && this.lockUntil > Date.now());\<close>
  The second argument is the value that the call of \<^verbatim>\<open>Date.now()\<close> returns.
  \<^verbatim>\<open>null\<close> is falsy and every \<^verbatim>\<open>Date\<close> object is truthy.
\<close>

definition truthy :: "time option \<Rightarrow> bool" where
  "truthy d = (case d of None \<Rightarrow> False | Some t \<Rightarrow> True)"

definition later_than :: "time option \<Rightarrow> time \<Rightarrow> bool" where
  "later_than d now = (case d of None \<Rightarrow> 0 > now | Some t \<Rightarrow> t > now)"

definition isLocked :: "user \<Rightarrow> time \<Rightarrow> bool" where
  "isLocked u now = (truthy (lockUntil u) \<and> later_than (lockUntil u) now)"

section \<open>Collaborators of the login handler\<close>

text \<open>
  What the handler calls and does not define: the store (\<^verbatim>\<open>User.findOne\<close>,
  \<^verbatim>\<open>user.save\<close>), \<^verbatim>\<open>bcrypt.compareSync\<close> and \<^verbatim>\<open>jwt.sign\<close> with the
  configured secret. Each of them may fail: a synchronous call throws, an asynchronous one
  returns a promise that rejects. They are parameters of the model, with the failure as a value.
  \<open>ERR_HTTP_HEADERS_SENT\<close> is the error that the response object throws when \<^verbatim>\<open>json\<close>
  is called on a response that has been sent already.
\<close>

datatype error = StoreError string | LibraryError string | ERR_HTTP_HEADERS_SENT

record payload =
  p_id :: string
  p_email :: string
  p_name :: string

record env =
  findOne :: "string option \<Rightarrow> error + user option"
  compareSync :: "string option \<Rightarrow> string \<Rightarrow> error + bool"
  jwt_sign :: "payload \<Rightarrow> error + string"
  save :: "user \<Rightarrow> error option"

text \<open>
  The handler reads the clock four times: inside \<^verbatim>\<open>user.isLocked()\<close> at the lock check,
  in the stale-lock test, when it sets the lock, and inside \<^verbatim>\<open>user.isLocked()\<close> after
  the save. \<open>tick now\<close> is a request during which the clock reads \<open>now\<close> every time.
\<close>

record clock =
  t_check :: time
  t_stale :: time
  t_lock :: time
  t_recheck :: time

definition tick :: "time \<Rightarrow> clock" where
  "tick now = \<lparr>t_check = now, t_stale = now, t_lock = now, t_recheck = now\<rparr>"

text \<open>
  The body of a request: \<^verbatim>\<open>req.body\<close> is an object, and a field of it is absent
  (\<^verbatim>\<open>undefined\<close>, \<open>None\<close>) or a string.
\<close>

record login_req =
  req_email :: "string option"
  req_password :: "string option"

datatype body = Message string | AuthToken string

text \<open>
  What a run of the handler does, in the order of the calls:
  \<open>responses\<close> the calls \<^verbatim>\<open>res.status(c).json(b)\<close> (the client receives the first; a later
  call throws \<open>ERR_HTTP_HEADERS_SENT\<close>);
  \<open>lookups\<close> the calls of \<^verbatim>\<open>User.findOne\<close>;
  \<open>compare_calls\<close> the calls of \<^verbatim>\<open>bcrypt.compareSync\<close>, each with the submitted
  password and the hash;
  \<open>saves\<close> the document at each call of \<^verbatim>\<open>user.save()\<close>;
  \<open>unhandled\<close> the rejections of promises that nothing awaits (the handler drops the promise of
  \<^verbatim>\<open>user.save()\<close>);
  \<open>forwarded\<close> the errors passed to \<^verbatim>\<open>next\<close> by the \<^verbatim>\<open>catch\<close> of the promise chain;
  \<open>doc\<close> the document in memory when the handler ends.
\<close>

record hstate =
  responses :: "(nat \<times> body) list"
  lookups :: "string option list"
  compare_calls :: "(string option \<times> string) list"
  saves :: "user list"
  unhandled :: "error list"
  forwarded :: "error list"
  doc :: "user option"

definition idle :: hstate where
  "idle = \<lparr>responses = [], lookups = [], compare_calls = [], saves = [], unhandled = [],
     forwarded = [], doc = None\<rparr>"

definition save_rejection :: "env \<Rightarrow> user \<Rightarrow> error list" where
  "save_rejection env u = (case save env u of None \<Rightarrow> [] | Some e \<Rightarrow> [e])"

section \<open>The login handler\<close>

definition MAX_LOGIN_ATTEMPTS :: int where
  "MAX_LOGIN_ATTEMPTS = 10"

definition LOCK_TIME :: int where
  "LOCK_TIME = 5 * 60 * 1000"

text \<open>
  \<^verbatim>\<open>if(user.lockUntil!==null&&Date.now()>user.lockUntil){
    user.failedLoginAttempts = 0
    user.lockUntil = null }\<close>
\<close>

definition staleLockReset :: "time \<Rightarrow> user \<Rightarrow> user" where
  "staleLockReset now u =
     (case lockUntil u of
        None \<Rightarrow> u
      | Some t \<Rightarrow> if now > t then u\<lparr>failedLoginAttempts := 0, lockUntil := None\<rparr> else u)"

text \<open>
  The updates of the failure branch:
  \<^verbatim>\<open>user.failedLoginAttempts += 1;
  if (user.failedLoginAttempts >= MAX_LOGIN_ATTEMPTS) { user.lockUntil = Date.now() + LOCK_TIME; }\<close>
\<close>

definition recordFailure :: "time \<Rightarrow> user \<Rightarrow> user" where
  "recordFailure now u =
     (let u2 = u\<lparr>failedLoginAttempts := failedLoginAttempts u + 1\<rparr>
      in if failedLoginAttempts u2 \<ge> MAX_LOGIN_ATTEMPTS
         then u2\<lparr>lockUntil := Some (now + LOCK_TIME)\<rparr> else u2)"

text \<open>
  The callback of \<^verbatim>\<open>User.findOne({ email }).then\<close> for a user that was found, together with
  the \<^verbatim>\<open>catch\<close> of the chain. The branches follow the source: the lock check, the stale-lock
  reset, the comparison, then the success branch (reset, save, sign, 200) or the failure branch
  (401, increment, lock at the threshold), which falls through to the save and to the second
  response. That second call of \<^verbatim>\<open>json\<close> comes after the 401 was sent, so it throws and
  the \<^verbatim>\<open>catch\<close> passes the error to \<^verbatim>\<open>next\<close>. An exception of
  \<^verbatim>\<open>compareSync\<close> or \<^verbatim>\<open>jwt.sign\<close> ends the callback in the same way. The
  promise of \<^verbatim>\<open>user.save()\<close> is not returned into the chain.
\<close>

definition on_found :: "env \<Rightarrow> clock \<Rightarrow> string option \<Rightarrow> user \<Rightarrow> hstate" where
  "on_found env clk pw user =
    (if isLocked user (t_check clk) then
       idle\<lparr>responses := [(423, Message ''Account locked. Please try again later.'')],
            doc := Some user\<rparr>
     else
       let u1 = staleLockReset (t_stale clk) user in
       case compareSync env pw (password u1) of
         Inl e \<Rightarrow>
           idle\<lparr>compare_calls := [(pw, password u1)], forwarded := [e], doc := Some u1\<rparr>
       | Inr passwordCorrect \<Rightarrow>
           if passwordCorrect then
             let u2 = u1\<lparr>failedLoginAttempts := 0, lockUntil := None\<rparr> in
             (case jwt_sign env \<lparr>p_id = uid u1, p_email = email u1, p_name = name u1\<rparr> of
                Inl e \<Rightarrow>
                  idle\<lparr>compare_calls := [(pw, password u1)], saves := [u2],
                       unhandled := save_rejection env u2, forwarded := [e], doc := Some u2\<rparr>
              | Inr authToken \<Rightarrow>
                  idle\<lparr>responses := [(200, AuthToken authToken)],
                       compare_calls := [(pw, password u1)], saves := [u2],
                       unhandled := save_rejection env u2, doc := Some u2\<rparr>)
           else
             let u3 = recordFailure (t_lock clk) u1 in
               idle\<lparr>responses :=
                      [(401, Message ''Please try again, the email and password did not matched''),
                       if isLocked u3 (t_recheck clk)
                       then (423, Message
                         ''Account locked due to too many failed login attempts. Please try again later.'')
                       else (401, Message ''Invalid username or password'')],
                    compare_calls := [(pw, password u1)], saves := [u3],
                    unhandled := save_rejection env u3, forwarded := [ERR_HTTP_HEADERS_SENT],
                    doc := Some u3\<rparr>)"

text \<open>
  \<^verbatim>\<open>router.post("/login", ...)\<close>: the test for empty strings, the lookup, the branch for
  no user, and the callback above.
\<close>

definition login :: "env \<Rightarrow> clock \<Rightarrow> login_req \<Rightarrow> hstate" where
  "login env clk r =
    (if req_email r = Some '''' \<or> req_password r = Some '''' then
       idle\<lparr>responses := [(400, Message ''Provide email and password.'')]\<rparr>
     else
       case findOne env (req_email r) of
         Inl e \<Rightarrow> idle\<lparr>lookups := [req_email r], forwarded := [e]\<rparr>
       | Inr None \<Rightarrow>
           idle\<lparr>responses := [(401, Message ''User not found.'')], lookups := [req_email r]\<rparr>
       | Inr (Some user) \<Rightarrow> (on_found env clk (req_password r) user)\<lparr>lookups := [req_email r]\<rparr>)"

text \<open>
  Consecutive attempts against one account: each attempt is the callback on the document that
  the store holds, which after an attempt is the one of the last save that succeeded.
  \<open>final_store\<close> is the document in the store after a list of attempts.
\<close>

definition stored_after :: "env \<Rightarrow> user \<Rightarrow> hstate \<Rightarrow> user" where
  "stored_after env u s = foldl (\<lambda>cur v. if save env v = None then v else cur) u (saves s)"

fun attempts :: "env \<Rightarrow> user \<Rightarrow> (clock \<times> string option) list \<Rightarrow> hstate list" where
  "attempts env u [] = []"
| "attempts env u ((clk, pw) # rest) =
     on_found env clk pw u # attempts env (stored_after env u (on_found env clk pw u)) rest"

fun final_store :: "env \<Rightarrow> user \<Rightarrow> (clock \<times> string option) list \<Rightarrow> user" where
  "final_store env u [] = u"
| "final_store env u ((clk, pw) # rest) =
     final_store env (stored_after env u (on_found env clk pw u)) rest"

section \<open>Signup validation\<close>

text \<open>
  A JavaScript string is a sequence of code units; a \<open>char\<close> stands for a code unit below 256
  (a code unit above that is in none of the classes below, except the negated class of the
  email pattern). \<open>code\<close> is the number of the code unit.
\<close>

definition code :: "char \<Rightarrow> nat" where
  "code c = of_char c"

text \<open>The classes \<^verbatim>\<open>[a-z]\<close>, \<^verbatim>\<open>[A-Z]\<close>, \<^verbatim>\<open>\d\<close>, \<^verbatim>\<open>[@$!%*?&]\<close> and
  \<^verbatim>\<open>[A-Za-z\d@$!%*?&]\<close>.\<close>

definition is_lower :: "char \<Rightarrow> bool" where
  "is_lower c = (97 \<le> code c \<and> code c \<le> 122)"

definition is_upper :: "char \<Rightarrow> bool" where
  "is_upper c = (65 \<le> code c \<and> code c \<le> 90)"

definition is_digit :: "char \<Rightarrow> bool" where
  "is_digit c = (48 \<le> code c \<and> code c \<le> 57)"

definition is_symbol :: "char \<Rightarrow> bool" where
  "is_symbol c = (code c = 64 \<or> code c = 36 \<or> code c = 33 \<or> code c = 37 \<or> code c = 42
     \<or> code c = 63 \<or> code c = 38)"

definition in_class :: "char \<Rightarrow> bool" where
  "in_class c = (is_upper c \<or> is_lower c \<or> is_digit c \<or> is_symbol c)"

text \<open>\<^verbatim>\<open>.\<close> matches every code unit but a line terminator (below 256: LF and CR).\<close>

definition is_dot :: "char \<Rightarrow> bool" where
  "is_dot c = (code c \<noteq> 10 \<and> code c \<noteq> 13)"

text \<open>
  A lookahead \<^verbatim>\<open>(?=.*[C])\<close> at the start of the input: some prefix of the input matches
  \<^verbatim>\<open>.*[C]\<close>, that is, the first code unit is in the class, or it matches \<^verbatim>\<open>.\<close> and
  the rest has such a prefix.
\<close>

fun lookahead :: "(char \<Rightarrow> bool) \<Rightarrow> string \<Rightarrow> bool" where
  "lookahead C [] = False"
| "lookahead C (c # cs) = (C c \<or> (is_dot c \<and> lookahead C cs))"

text \<open>
  \<^verbatim>\<open>/^(?=.*[a-z])(?=.*[A-Z])(?=.*\d)(?=.*[@$!%*?&])[A-Za-z\d@$!%*?&]{8,}$/\<close>: the four
  lookaheads at the start, then eight or more code units of the class up to the end.
\<close>

definition passwordRegex_test :: "string \<Rightarrow> bool" where
  "passwordRegex_test s =
     (lookahead is_lower s \<and> lookahead is_upper s \<and> lookahead is_digit s
      \<and> lookahead is_symbol s \<and> 8 \<le> length s \<and> list_all in_class s)"

text \<open>
  \<^verbatim>\<open>/^[^\s@]+@[^\s@]+\.[^\s@]{2,}$/\<close>. \<open>not_space_at\<close> is \<^verbatim>\<open>[^\s@]\<close> (the white space
  below 256 is TAB, LF, VT, FF, CR, space and the no-break space). Each function reads the input
  from the left after one or more code units of the preceding \<^verbatim>\<open>[^\s@]+\<close> are consumed, and
  either goes on to the next part of the pattern or consumes one more.
\<close>

definition is_space :: "char \<Rightarrow> bool" where
  "is_space c = ((9 \<le> code c \<and> code c \<le> 13) \<or> code c = 32 \<or> code c = 160)"

definition not_space_at :: "char \<Rightarrow> bool" where
  "not_space_at c = (\<not> is_space c \<and> code c \<noteq> 64)"

definition tld :: "string \<Rightarrow> bool" where
  "tld s = (2 \<le> length s \<and> list_all not_space_at s)"

fun domain_rest :: "string \<Rightarrow> bool" where
  "domain_rest [] = False"
| "domain_rest (c # cs) = ((code c = 46 \<and> tld cs) \<or> (not_space_at c \<and> domain_rest cs))"

definition domain_part :: "string \<Rightarrow> bool" where
  "domain_part s = (case s of [] \<Rightarrow> False | c # cs \<Rightarrow> not_space_at c \<and> domain_rest cs)"

fun local_rest :: "string \<Rightarrow> bool" where
  "local_rest [] = False"
| "local_rest (c # cs) = ((code c = 64 \<and> domain_part cs) \<or> (not_space_at c \<and> local_rest cs))"

definition emailRegex_test :: "string \<Rightarrow> bool" where
  "emailRegex_test s = (case s of [] \<Rightarrow> False | c # cs \<Rightarrow> not_space_at c \<and> local_rest cs)"

text \<open>
  The synchronous part of \<^verbatim>\<open>router.post("/signup", ...)\<close>: the three checks that answer 400.
  \<open>None\<close> means that the request passes them and goes on to the lookup of the email.
  \<^verbatim>\<open>RegExp.prototype.test\<close> converts its argument to a string, so an absent field is tested
  as the string \<^verbatim>\<open>undefined\<close>.
\<close>

record signup_req =
  new_email :: "string option"
  new_password :: "string option"
  new_name :: "string option"

definition to_string :: "string option \<Rightarrow> string" where
  "to_string v = (case v of None \<Rightarrow> ''undefined'' | Some s \<Rightarrow> s)"

definition signup_validation :: "signup_req \<Rightarrow> (nat \<times> body) option" where
  "signup_validation r =
    (if new_email r = Some [] \<or> new_password r = Some [] \<or> new_name r = Some [] then
       Some (400, Message ''Provide email, password and name'')
     else if \<not> emailRegex_test (to_string (new_email r)) then
       Some (400, Message ''Provide a valid email address.'')
     else if \<not> passwordRegex_test (to_string (new_password r)) then
       Some (400, Message
         ''Password must have at least 8 characters and contain at least one number, one symbol, one lowercase and one uppercase letter.'')
     else None)"

section \<open>Concrete accounts and collaborators\<close>

text \<open>
  An account with a given counter and lock, and a store that holds one account. Its
  \<open>compareSync\<close> throws on an absent password, as the library does, and accepts one password;
  its \<open>save\<close> has the given outcome.
\<close>

definition account :: "int \<Rightarrow> time option \<Rightarrow> user" where
  "account n l = \<lparr>uid = ''64f0c1'', email = ''user@x.com'', password = ''$2b$10$stored'',
     name = ''User'', failedLoginAttempts = n, lockUntil = l\<rparr>"

definition store_of :: "user \<Rightarrow> error option \<Rightarrow> env" where
  "store_of u w =
     \<lparr>findOne = (\<lambda>q. if q = Some (email u) then Inr (Some u) else Inr None),
      compareSync = (\<lambda>pw h. case pw of
           None \<Rightarrow> Inl (LibraryError ''data and hash arguments required'')
         | Some p \<Rightarrow> Inr (p = ''Secret1!a'' \<and> h = ''$2b$10$stored'')),
      jwt_sign = (\<lambda>p. Inr (''jwt.'' @ p_id p)),
      save = (\<lambda>v. w)\<rparr>"

definition post :: "string \<Rightarrow> string \<Rightarrow> login_req" where
  "post e p = \<lparr>req_email = Some e, req_password = Some p\<rparr>"

definition signup_of :: "string \<Rightarrow> signup_req" where
  "signup_of p = \<lparr>new_email = Some ''user@x.com'', new_password = Some p, new_name = Some ''User''\<rparr>"

text \<open>Ten attempts with wrong passwords, one second apart.\<close>

definition ten_wrong :: "(clock \<times> string option) list" where
  "ten_wrong =
    [(tick 1000, Some ''wrong1''), (tick 2000, Some ''wrong2''), (tick 3000, Some ''wrong3''),
     (tick 4000, Some ''wrong4''), (tick 5000, Some ''wrong5''), (tick 6000, Some ''wrong6''),
     (tick 7000, Some ''wrong7''), (tick 8000, Some ''wrong8''), (tick 9000, Some ''wrong9''),
     (tick 10000, Some ''wrong10'')]"

section \<open>Lemmas about the handler\<close>

lemmas handler_defs = login_def on_found_def isLocked_def truthy_def later_than_def
  staleLockReset_def recordFailure_def idle_def tick_def save_rejection_def
  MAX_LOGIN_ATTEMPTS_def LOCK_TIME_def account_def store_of_def post_def Let_def

lemmas unlocked_defs = post_def store_of_def account_def tick_def isLocked_def truthy_def
  later_than_def

lemma login_found:
  assumes "req_email r \<noteq> Some ''''" and "req_password r \<noteq> Some ''''"
    and "findOne env (req_email r) = Inr (Some u)"
  shows "login env clk r = (on_found env clk (req_password r) u)\<lparr>lookups := [req_email r]\<rparr>"
  using assms by (simp add: login_def)

lemma login_not_found:
  assumes "req_email r \<noteq> Some ''''" and "req_password r \<noteq> Some ''''"
    and "findOne env (req_email r) = Inr None"
  shows "login env clk r =
    idle\<lparr>responses := [(401, Message ''User not found.'')], lookups := [req_email r]\<rparr>"
  using assms by (simp add: login_def)

lemma staleLockReset_frame:
  "uid (staleLockReset t u) = uid u" "email (staleLockReset t u) = email u"
  "password (staleLockReset t u) = password u" "name (staleLockReset t u) = name u"
  by (simp_all add: staleLockReset_def split: option.split)

lemma staleLockReset_cases:
  "staleLockReset now u =
     (if \<exists>t. lockUntil u = Some t \<and> t < now
      then u\<lparr>failedLoginAttempts := 0, lockUntil := None\<rparr> else u)"
  by (cases "lockUntil u") (simp_all add: staleLockReset_def)

lemma staleLockReset_then_reset:
  "(staleLockReset t u)\<lparr>failedLoginAttempts := 0, lockUntil := None\<rparr>
     = u\<lparr>failedLoginAttempts := 0, lockUntil := None\<rparr>"
  by (simp add: staleLockReset_def split: option.split)

lemma recordFailure_frame:
  "uid (recordFailure t u) = uid u" "email (recordFailure t u) = email u"
  "password (recordFailure t u) = password u" "name (recordFailure t u) = name u"
  by (simp_all add: recordFailure_def Let_def)

lemma recordFailure_fields:
  "failedLoginAttempts (recordFailure t u) = failedLoginAttempts u + 1"
  "lockUntil (recordFailure t u) =
     (if 10 \<le> failedLoginAttempts u + 1 then Some (t + 300000) else lockUntil u)"
  by (simp_all add: recordFailure_def Let_def MAX_LOGIN_ATTEMPTS_def LOCK_TIME_def)

lemma on_found_locked:
  assumes "isLocked u (t_check clk)"
  shows "on_found env clk pw u =
    idle\<lparr>responses := [(423, Message ''Account locked. Please try again later.'')],
         doc := Some u\<rparr>"
  using assms by (simp add: on_found_def)

lemma on_found_match:
  assumes "\<not> isLocked u (t_check clk)"
    and "compareSync env pw (password u) = Inr True"
    and "jwt_sign env \<lparr>p_id = uid u, p_email = email u, p_name = name u\<rparr> = Inr tok"
  shows "on_found env clk pw u =
    idle\<lparr>responses := [(200, AuthToken tok)], compare_calls := [(pw, password u)],
      saves := [u\<lparr>failedLoginAttempts := 0, lockUntil := None\<rparr>],
      unhandled := save_rejection env (u\<lparr>failedLoginAttempts := 0, lockUntil := None\<rparr>),
      doc := Some (u\<lparr>failedLoginAttempts := 0, lockUntil := None\<rparr>)\<rparr>"
  using assms
  by (simp add: on_found_def Let_def staleLockReset_frame staleLockReset_then_reset)

lemma on_found_mismatch:
  assumes "\<not> isLocked u (t_check clk)"
    and "compareSync env pw (password u) = Inr False"
  shows "on_found env clk pw u =
    idle\<lparr>responses :=
        [(401, Message ''Please try again, the email and password did not matched''),
         if isLocked (recordFailure (t_lock clk) (staleLockReset (t_stale clk) u)) (t_recheck clk)
         then (423, Message
           ''Account locked due to too many failed login attempts. Please try again later.'')
         else (401, Message ''Invalid username or password'')],
      compare_calls := [(pw, password u)],
      saves := [recordFailure (t_lock clk) (staleLockReset (t_stale clk) u)],
      unhandled :=
        save_rejection env (recordFailure (t_lock clk) (staleLockReset (t_stale clk) u)),
      forwarded := [ERR_HTTP_HEADERS_SENT],
      doc := Some (recordFailure (t_lock clk) (staleLockReset (t_stale clk) u))\<rparr>"
  using assms
  by (simp add: on_found_def Let_def staleLockReset_frame)

subsection \<open>Consecutive attempts\<close>

lemma attempts_nth:
  "i < length reqs \<Longrightarrow>
    attempts env u reqs ! i =
      on_found env (fst (reqs ! i)) (snd (reqs ! i)) (final_store env u (take i reqs))"
proof (induction reqs arbitrary: u i)
  case Nil
  then show ?case by simp
next
  case (Cons a reqs)
  obtain clk pw where a: "a = (clk, pw)" by (cases a)
  show ?case
  proof (cases i)
    case 0
    then show ?thesis by (simp add: a)
  next
    case (Suc j)
    with Cons.prems have "j < length reqs" by simp
    from Cons.IH [OF this] show ?thesis by (simp add: a Suc)
  qed
qed

lemma stored_after_mismatch:
  assumes "\<not> isLocked u (t_check clk)"
    and "compareSync env pw (password u) = Inr False"
    and "\<And>v. save env v = None"
  shows "stored_after env u (on_found env clk pw u) =
    recordFailure (t_lock clk) (staleLockReset (t_stale clk) u)"
  using assms by (simp add: on_found_mismatch stored_after_def idle_def)

text \<open>
  Fewer than ten failures on an account without a lock only count: the store ends with the
  counter raised by their number.
\<close>

lemma final_store_mismatches:
  assumes "lockUntil u = None"
    and "\<And>v. save env v = None"
    and "\<forall>q \<in> set reqs. compareSync env (snd q) (password u) = Inr False"
    and "failedLoginAttempts u + int (length reqs) < 10"
  shows "final_store env u reqs =
    u\<lparr>failedLoginAttempts := failedLoginAttempts u + int (length reqs)\<rparr>"
  using assms
proof (induction reqs arbitrary: u)
  case Nil
  then show ?case by simp
next
  case (Cons a reqs)
  obtain clk pw where a: "a = (clk, pw)" by (cases a)
  let ?u' = "u\<lparr>failedLoginAttempts := failedLoginAttempts u + 1\<rparr>"
  have unlocked: "\<not> isLocked u (t_check clk)"
    using Cons.prems(1) by (simp add: isLocked_def truthy_def)
  have mism: "compareSync env pw (password u) = Inr False"
    using Cons.prems(3) by (simp add: a)
  have "staleLockReset (t_stale clk) u = u"
    using Cons.prems(1) by (simp add: staleLockReset_def)
  moreover have "recordFailure (t_lock clk) u = ?u'"
    using Cons.prems(4)
    by (simp add: recordFailure_def Let_def MAX_LOGIN_ATTEMPTS_def)
  ultimately have step: "stored_after env u (on_found env clk pw u) = ?u'"
    using stored_after_mismatch [OF unlocked mism Cons.prems(2)] by simp
  have "final_store env ?u' reqs =
      ?u'\<lparr>failedLoginAttempts := failedLoginAttempts ?u' + int (length reqs)\<rparr>"
    using Cons.prems by (intro Cons.IH) simp_all
  then show ?case by (simp add: a step add.assoc)
qed

lemma tenth_attempt_outcome:
  assumes "failedLoginAttempts u = 0" and "lockUntil u = None"
    and "length reqs = 10"
    and "\<forall>q \<in> set reqs. compareSync env (snd q) (password u) = Inr False"
    and "\<forall>v. save env v = None"
    and "t_recheck (fst (reqs ! 9)) < t_lock (fst (reqs ! 9)) + 300000"
  shows "attempts env u reqs ! 9 =
    idle\<lparr>responses :=
        [(401, Message ''Please try again, the email and password did not matched''),
         (423, Message
           ''Account locked due to too many failed login attempts. Please try again later.'')],
      compare_calls := [(snd (reqs ! 9), password u)],
      saves := [u\<lparr>failedLoginAttempts := 10,
                  lockUntil := Some (t_lock (fst (reqs ! 9)) + 300000)\<rparr>],
      unhandled := [],
      forwarded := [ERR_HTTP_HEADERS_SENT],
      doc := Some (u\<lparr>failedLoginAttempts := 10,
                     lockUntil := Some (t_lock (fst (reqs ! 9)) + 300000)\<rparr>)\<rparr>"
proof -
  let ?clk = "fst (reqs ! 9)" and ?pw = "snd (reqs ! 9)"
  let ?u9 = "u\<lparr>failedLoginAttempts := 9\<rparr>"
  let ?u10 = "u\<lparr>failedLoginAttempts := 10, lockUntil := Some (t_lock ?clk + 300000)\<rparr>"
  have sv: "\<And>v. save env v = None" using assms(5) by simp
  have "\<forall>q \<in> set (take 9 reqs). compareSync env (snd q) (password u) = Inr False"
    using assms(4) by (meson in_set_takeD)
  then have "final_store env u (take 9 reqs) = ?u9"
    using final_store_mismatches [OF assms(2) sv, of "take 9 reqs"] assms(1,3) by simp
  then have nth: "attempts env u reqs ! 9 = on_found env ?clk ?pw ?u9"
    using attempts_nth [of 9 reqs env u] assms(3) by simp
  have unlocked: "\<not> isLocked ?u9 (t_check ?clk)"
    using assms(2) by (simp add: isLocked_def truthy_def)
  have "reqs ! 9 \<in> set reqs" using assms(3) by simp
  then have mism: "compareSync env ?pw (password ?u9) = Inr False"
    using assms(4) by simp
  have "staleLockReset (t_stale ?clk) ?u9 = ?u9"
    using assms(2) by (simp add: staleLockReset_def)
  moreover have "recordFailure (t_lock ?clk) ?u9 = ?u10"
    by (simp add: recordFailure_def Let_def MAX_LOGIN_ATTEMPTS_def LOCK_TIME_def)
  moreover have "isLocked ?u10 (t_recheck ?clk)"
    using assms(6) by (simp add: isLocked_def truthy_def later_than_def)
  ultimately show ?thesis
    using on_found_mismatch [OF unlocked mism] sv by (simp add: nth save_rejection_def)
qed

lemma ten_wrong_tenth: "ten_wrong ! 9 = (tick 10000, Some ''wrong10'')"
  by (simp add: ten_wrong_def)

lemma ten_wrong_mismatch:
  "\<forall>q \<in> set ten_wrong.
     compareSync (store_of (account 0 None) None) (snd q) (password (account 0 None)) = Inr False"
  by (simp add: ten_wrong_def store_of_def account_def)

lemma store_of_saves: "\<forall>v. save (store_of u None) v = None"
  by (simp add: store_of_def)

subsection \<open>The password pattern\<close>

lemmas class_defs = code_def is_lower_def is_upper_def is_digit_def is_symbol_def in_class_def
  is_dot_def is_space_def not_space_at_def

lemmas signup_defs = signup_of_def to_string_def emailRegex_test_def domain_part_def tld_def

lemma in_class_is_dot: "in_class c \<Longrightarrow> is_dot c"
  by (auto simp add: in_class_def is_dot_def is_upper_def is_lower_def is_digit_def
      is_symbol_def)

text \<open>On an input of the class only, a lookahead finds its class wherever it occurs.\<close>

lemma lookahead_in_class:
  "list_all in_class s \<Longrightarrow> lookahead C s = list_ex C s"
  by (induction s) (auto simp add: in_class_is_dot)

lemma passwordRegex_test_iff:
  "passwordRegex_test p =
    (8 \<le> length p \<and> list_all in_class p \<and> list_ex is_lower p \<and> list_ex is_upper p
      \<and> list_ex is_digit p \<and> list_ex is_symbol p)"
  using lookahead_in_class [of p] by (auto simp add: passwordRegex_test_def)

section \<open>The claims\<close>

subsection \<open>C1\<close>

text \<open>
  C1, as amended. In a run of ten consecutive failed logins against one account, starting from a
  clean counter and with every save succeeding, the tenth submitted password is compared with
  the stored hash. That failure brings \<open>failedLoginAttempts\<close> to 10 and sets \<open>lockUntil\<close>
  to the time of the attempt plus 300000 ms, and the last response call of the handler is the
  423 one (as long as the clock read after the save lies before the new \<open>lockUntil\<close>).
\<close>

theorem tenth_failure_is_compared_then_locks:
  assumes "failedLoginAttempts u = 0" and "lockUntil u = None"
    and "length reqs = 10"
    and "\<forall>q \<in> set reqs. compareSync env (snd q) (password u) = Inr False"
    and "\<forall>v. save env v = None"
    and "t_recheck (fst (reqs ! 9)) < t_lock (fst (reqs ! 9)) + 300000"
  shows "compare_calls (attempts env u reqs ! 9) = [(snd (reqs ! 9), password u)]
    \<and> doc (attempts env u reqs ! 9) =
        Some (u\<lparr>failedLoginAttempts := 10,
                lockUntil := Some (t_lock (fst (reqs ! 9)) + 300000)\<rparr>)
    \<and> last (responses (attempts env u reqs ! 9)) = (423, Message
        ''Account locked due to too many failed login attempts. Please try again later.'')"
  using tenth_attempt_outcome [OF assms] by (simp add: idle_def)

theorem tenth_failure_is_compared_then_locks_witness:
  "failedLoginAttempts (account 0 None) = 0 \<and> lockUntil (account 0 None) = None
   \<and> length ten_wrong = 10
   \<and> compare_calls (attempts (store_of (account 0 None) None) (account 0 None) ten_wrong ! 9)
     = [(Some ''wrong10'', ''$2b$10$stored'')]
   \<and> doc (attempts (store_of (account 0 None) None) (account 0 None) ten_wrong ! 9)
     = Some (account 10 (Some 310000))
   \<and> last (responses (attempts (store_of (account 0 None) None) (account 0 None) ten_wrong ! 9))
     = (423, Message
        ''Account locked due to too many failed login attempts. Please try again later.'')"
proof -
  have h: "failedLoginAttempts (account 0 None) = 0" "lockUntil (account 0 None) = None"
    "length ten_wrong = 10"
    by (simp_all add: account_def ten_wrong_def)
  have t: "t_recheck (fst (ten_wrong ! 9)) < t_lock (fst (ten_wrong ! 9)) + 300000"
    by (simp add: ten_wrong_tenth tick_def)
  from tenth_failure_is_compared_then_locks
    [OF h ten_wrong_mismatch store_of_saves t]
  show ?thesis
    using h by (simp add: ten_wrong_tenth tick_def account_def)
qed

text \<open>
  C1 as stated fails: on the tenth of ten wrong passwords the account is not locked yet (the
  counter is 9), so \<^verbatim>\<open>compareSync\<close> is called with the tenth password, and the first response
  of that attempt is the 401 of the failure branch.
\<close>

theorem tenth_password_compared_counterexample:
  "compare_calls (attempts (store_of (account 0 None) None) (account 0 None) ten_wrong ! 9)
     = [(Some ''wrong10'', ''$2b$10$stored'')]
   \<and> responses (attempts (store_of (account 0 None) None) (account 0 None) ten_wrong ! 9)
     = [(401, Message ''Please try again, the email and password did not matched''),
        (423, Message
          ''Account locked due to too many failed login attempts. Please try again later.'')]"
proof -
  have h: "failedLoginAttempts (account 0 None) = 0" "lockUntil (account 0 None) = None"
    "length ten_wrong = 10"
    by (simp_all add: account_def ten_wrong_def)
  have t: "t_recheck (fst (ten_wrong ! 9)) < t_lock (fst (ten_wrong ! 9)) + 300000"
    by (simp add: ten_wrong_tenth tick_def)
  from tenth_attempt_outcome [OF h ten_wrong_mismatch store_of_saves t]
  show ?thesis
    by (simp add: ten_wrong_tenth idle_def account_def)
qed

subsection \<open>C2\<close>

text \<open>
  C2. The reset of an expired lock is guarded by \<^verbatim>\<open>Date.now() > user.lockUntil\<close>. At the
  instant \<open>lockUntil = now\<close> the account is not locked any more and the guard is false as well:
  the counter is not reset, the submitted password is compared with the counter still at 10, and
  one wrong password brings it to 11 and locks the account again.
\<close>

theorem reset_skipped_at_expiry_instant:
  "\<not> isLocked (account 10 (Some 5000)) 5000
   \<and> staleLockReset 5000 (account 10 (Some 5000)) = account 10 (Some 5000)
   \<and> compare_calls (login (store_of (account 10 (Some 5000)) None) (tick 5000)
        (post ''user@x.com'' ''wrong'')) = [(Some ''wrong'', ''$2b$10$stored'')]
   \<and> doc (login (store_of (account 10 (Some 5000)) None) (tick 5000)
        (post ''user@x.com'' ''wrong'')) = Some (account 11 (Some 305000))"
  by (simp add: handler_defs)

subsection \<open>C3\<close>

text \<open>
  C3: a login attempt on an account that \<open>isLocked\<close> reports locked ends with the 423 response;
  \<^verbatim>\<open>compareSync\<close> is not called, nothing is saved and the document is the one that was found,
  whatever the submitted password and whatever the comparison would return.
\<close>

theorem locked_login_rejected_unchanged:
  assumes "req_email r \<noteq> Some ''''" and "req_password r \<noteq> Some ''''"
    and "findOne env (req_email r) = Inr (Some u)"
    and "isLocked u (t_check clk)"
  shows "responses (login env clk r) =
      [(423, Message ''Account locked. Please try again later.'')]
    \<and> compare_calls (login env clk r) = []
    \<and> saves (login env clk r) = []
    \<and> doc (login env clk r) = Some u"
  using assms by (simp add: login_found on_found_locked idle_def)

theorem locked_login_rejected_unchanged_witness:
  "isLocked (account 10 (Some 5000)) (t_check (tick 4999))
   \<and> responses (login (store_of (account 10 (Some 5000)) None) (tick 4999)
        (post ''user@x.com'' ''Secret1!a'')) =
      [(423, Message ''Account locked. Please try again later.'')]
   \<and> compare_calls (login (store_of (account 10 (Some 5000)) None) (tick 4999)
        (post ''user@x.com'' ''Secret1!a'')) = []
   \<and> saves (login (store_of (account 10 (Some 5000)) None) (tick 4999)
        (post ''user@x.com'' ''Secret1!a'')) = []
   \<and> doc (login (store_of (account 10 (Some 5000)) None) (tick 4999)
        (post ''user@x.com'' ''Secret1!a'')) = Some (account 10 (Some 5000))"
  using locked_login_rejected_unchanged [of "post ''user@x.com'' ''Secret1!a''"
      "store_of (account 10 (Some 5000)) None" "account 10 (Some 5000)" "tick 4999"]
  by (simp add: unlocked_defs)

subsection \<open>C4\<close>

text \<open>
  C4, as amended. On a login attempt with a password that does not match, on an account that is
  not locked, \<open>failedLoginAttempts\<close> becomes one more than its value after the stale-lock reset
  (so 1 when an expired lock was just cleared, the old value plus 1 otherwise). If the new count
  is at least 10, \<open>lockUntil\<close> is set to the time plus 300000 ms; otherwise \<open>lockUntil\<close>
  keeps its value after the stale-lock reset. The other fields keep their values, and the
  updated document is saved in both cases.
\<close>

theorem failed_login_counts_after_reset:
  assumes "req_email r \<noteq> Some ''''" and "req_password r \<noteq> Some ''''"
    and "findOne env (req_email r) = Inr (Some u)"
    and "\<not> isLocked u (t_check clk)"
    and "compareSync env (req_password r) (password u) = Inr False"
  shows "\<exists>d h. doc (login env clk r) = Some d \<and> saves (login env clk r) = [d]
    \<and> h = (if \<exists>t. lockUntil u = Some t \<and> t < t_stale clk
           then u\<lparr>failedLoginAttempts := 0, lockUntil := None\<rparr> else u)
    \<and> failedLoginAttempts d = failedLoginAttempts h + 1
    \<and> lockUntil d = (if 10 \<le> failedLoginAttempts d then Some (t_lock clk + 300000)
                     else lockUntil h)
    \<and> uid d = uid u \<and> email d = email u \<and> password d = password u \<and> name d = name u"
proof -
  let ?h = "staleLockReset (t_stale clk) u"
  let ?d = "recordFailure (t_lock clk) ?h"
  have "doc (login env clk r) = Some ?d" "saves (login env clk r) = [?d]"
    using assms by (simp_all add: login_found on_found_mismatch idle_def)
  moreover have "failedLoginAttempts ?d = failedLoginAttempts ?h + 1"
    by (simp add: recordFailure_fields)
  moreover have "lockUntil ?d =
      (if 10 \<le> failedLoginAttempts ?d then Some (t_lock clk + 300000) else lockUntil ?h)"
    by (simp add: recordFailure_fields)
  moreover have "uid ?d = uid u" "email ?d = email u" "password ?d = password u"
      "name ?d = name u"
    by (simp_all add: recordFailure_frame staleLockReset_frame)
  ultimately show ?thesis
    using staleLockReset_cases [of "t_stale clk" u] by blast
qed

theorem failed_login_counts_after_reset_witness:
  "\<not> isLocked (account 9 None) (t_check (tick 1000))
   \<and> (\<exists>d. doc (login (store_of (account 9 None) None) (tick 1000) (post ''user@x.com'' ''wrong''))
          = Some d
        \<and> saves (login (store_of (account 9 None) None) (tick 1000)
            (post ''user@x.com'' ''wrong'')) = [d]
        \<and> failedLoginAttempts d = 10 \<and> lockUntil d = Some 301000)"
proof -
  have e: "req_email (post ''user@x.com'' ''wrong'') \<noteq> Some ''''"
    "req_password (post ''user@x.com'' ''wrong'') \<noteq> Some ''''"
    by (simp_all add: post_def)
  have f: "findOne (store_of (account 9 None) None) (req_email (post ''user@x.com'' ''wrong''))
      = Inr (Some (account 9 None))"
    by (simp add: unlocked_defs)
  have u: "\<not> isLocked (account 9 None) (t_check (tick 1000))"
    by (simp add: unlocked_defs)
  have c: "compareSync (store_of (account 9 None) None)
      (req_password (post ''user@x.com'' ''wrong'')) (password (account 9 None)) = Inr False"
    by (simp add: unlocked_defs)
  from failed_login_counts_after_reset [OF e f u c]
  show ?thesis
    using u by (auto simp add: account_def tick_def)
qed

text \<open>
  C4 as stated fails on an account with an expired lock: the counter was 10 and the lock
  expired at 1000; a wrong password at 2000 leaves the counter at 1, not at 11, and
  \<open>lockUntil\<close> at \<^verbatim>\<open>null\<close>, not unchanged.
\<close>

theorem stale_lock_then_failure_counterexample:
  "\<not> isLocked (account 10 (Some 1000)) 2000
   \<and> compareSync (store_of (account 10 (Some 1000)) None) (Some ''wrong'')
        (password (account 10 (Some 1000))) = Inr False
   \<and> doc (login (store_of (account 10 (Some 1000)) None) (tick 2000)
        (post ''user@x.com'' ''wrong'')) = Some (account 1 None)
   \<and> account 1 None \<noteq> account (10 + 1) (Some 1000)"
  by (simp add: handler_defs)

subsection \<open>C5\<close>

text \<open>
  C5: a login attempt on an account that is not locked, with a password that matches and a
  token that is signed, leaves the document with \<open>failedLoginAttempts = 0\<close> and
  \<open>lockUntil = None\<close>, saves that document and answers 200 with the token, whatever the
  counter and the lock were before.
\<close>

theorem successful_login_resets:
  assumes "req_email r \<noteq> Some ''''" and "req_password r \<noteq> Some ''''"
    and "findOne env (req_email r) = Inr (Some u)"
    and "\<not> isLocked u (t_check clk)"
    and "compareSync env (req_password r) (password u) = Inr True"
    and "jwt_sign env \<lparr>p_id = uid u, p_email = email u, p_name = name u\<rparr> = Inr tok"
  shows "doc (login env clk r) = Some (u\<lparr>failedLoginAttempts := 0, lockUntil := None\<rparr>)
    \<and> saves (login env clk r) = [u\<lparr>failedLoginAttempts := 0, lockUntil := None\<rparr>]
    \<and> responses (login env clk r) = [(200, AuthToken tok)]"
  using assms by (simp add: login_found on_found_match idle_def)

theorem successful_login_resets_witness:
  "\<not> isLocked (account 7 (Some 1000)) (t_check (tick 1000))
   \<and> doc (login (store_of (account 7 (Some 1000)) None) (tick 1000)
        (post ''user@x.com'' ''Secret1!a'')) = Some (account 0 None)
   \<and> saves (login (store_of (account 7 (Some 1000)) None) (tick 1000)
        (post ''user@x.com'' ''Secret1!a'')) = [account 0 None]
   \<and> responses (login (store_of (account 7 (Some 1000)) None) (tick 1000)
        (post ''user@x.com'' ''Secret1!a'')) = [(200, AuthToken ''jwt.64f0c1'')]"
  using successful_login_resets [of "post ''user@x.com'' ''Secret1!a''"
      "store_of (account 7 (Some 1000)) None" "account 7 (Some 1000)" "tick 1000"
      "''jwt.64f0c1''"]
  by (simp add: unlocked_defs)

subsection \<open>C6\<close>

text \<open>
  C6: for every account and every evaluation time, \<open>isLocked\<close> is true exactly when
  \<open>lockUntil\<close> is set and strictly greater than that time. The body of the method is a
  single \<^verbatim>\<open>return\<close> of an expression without assignment, so the model is a function of
  the account and the time that yields a truth value only: the account is not changed.
\<close>

theorem isLocked_iff:
  "isLocked u now = (\<exists>t. lockUntil u = Some t \<and> now < t)"
  by (cases "lockUntil u") (simp_all add: isLocked_def truthy_def later_than_def)

theorem isLocked_iff_witness:
  "isLocked \<lparr>uid = ''1'', email = ''a@b.cd'', password = ''h'', name = ''A'',
      failedLoginAttempts = 10, lockUntil = Some 5000\<rparr> 4999
   \<and> \<not> isLocked \<lparr>uid = ''1'', email = ''a@b.cd'', password = ''h'', name = ''A'',
      failedLoginAttempts = 10, lockUntil = Some 5000\<rparr> 5000
   \<and> \<not> isLocked \<lparr>uid = ''1'', email = ''a@b.cd'', password = ''h'', name = ''A'',
      failedLoginAttempts = 0, lockUntil = None\<rparr> 5000"
  using isLocked_iff [of "\<lparr>uid = ''1'', email = ''a@b.cd'', password = ''h'', name = ''A'',
      failedLoginAttempts = 10, lockUntil = Some 5000\<rparr>" 4999]
    isLocked_iff [of "\<lparr>uid = ''1'', email = ''a@b.cd'', password = ''h'', name = ''A'',
      failedLoginAttempts = 10, lockUntil = Some 5000\<rparr>" 5000]
    isLocked_iff [of "\<lparr>uid = ''1'', email = ''a@b.cd'', password = ''h'', name = ''A'',
      failedLoginAttempts = 0, lockUntil = None\<rparr>" 5000]
  by simp

subsection \<open>C7\<close>

text \<open>
  C7, as amended. A login request whose email matches no account gets the single response 401
  with the message \<^verbatim>\<open>User not found.\<close>; a request whose email matches an unlocked account
  and whose password is wrong gets first the response 401 with the message
  \<^verbatim>\<open>Please try again, the email and password did not matched\<close>. The status is the same and
  the bodies differ: no response to the wrong password carries the message of the unknown email.
\<close>

theorem unknown_email_and_wrong_password_differ:
  assumes "req_email r1 \<noteq> Some ''''" and "req_password r1 \<noteq> Some ''''"
    and "findOne env (req_email r1) = Inr None"
    and "req_email r2 \<noteq> Some ''''" and "req_password r2 \<noteq> Some ''''"
    and "findOne env (req_email r2) = Inr (Some u)"
    and "\<not> isLocked u (t_check clk2)"
    and "compareSync env (req_password r2) (password u) = Inr False"
  shows "responses (login env clk1 r1) = [(401, Message ''User not found.'')]
    \<and> hd (responses (login env clk2 r2)) =
        (401, Message ''Please try again, the email and password did not matched'')
    \<and> (401, Message ''User not found.'') \<notin> set (responses (login env clk2 r2))"
  using assms by (simp add: login_not_found login_found on_found_mismatch idle_def)

theorem unknown_email_and_wrong_password_differ_witness:
  "findOne (store_of (account 0 None) None) (req_email (post ''nobody@x.com'' ''wrong'')) = Inr None
   \<and> \<not> isLocked (account 0 None) (t_check (tick 1000))
   \<and> responses (login (store_of (account 0 None) None) (tick 1000)
        (post ''nobody@x.com'' ''wrong'')) = [(401, Message ''User not found.'')]
   \<and> hd (responses (login (store_of (account 0 None) None) (tick 1000)
        (post ''user@x.com'' ''wrong''))) =
        (401, Message ''Please try again, the email and password did not matched'')"
  using unknown_email_and_wrong_password_differ [of "post ''nobody@x.com'' ''wrong''"
      "store_of (account 0 None) None" "post ''user@x.com'' ''wrong''" "account 0 None"
      "tick 1000" "tick 1000"]
  by (simp add: unlocked_defs)

text \<open>
  C7 as stated fails: with the same wrong password, the unknown email and the known email of
  an unlocked account get different bodies, and the body for the unknown email says which check
  failed.
\<close>

theorem responses_distinguishable_counterexample:
  "responses (login (store_of (account 0 None) None) (tick 1000)
      (post ''nobody@x.com'' ''wrong'')) = [(401, Message ''User not found.'')]
   \<and> responses (login (store_of (account 0 None) None) (tick 1000)
      (post ''user@x.com'' ''wrong'')) =
        [(401, Message ''Please try again, the email and password did not matched''),
         (401, Message ''Invalid username or password'')]"
  by (simp add: handler_defs)

subsection \<open>C8\<close>

text \<open>
  C8. The handler calls \<^verbatim>\<open>user.save()\<close> and drops the promise, so a save that fails does not
  reach the \<^verbatim>\<open>catch\<close> of the chain. With a store whose save rejects, a correct password is
  still answered 200 with the token and nothing is passed to \<^verbatim>\<open>next\<close>; the rejection stays
  unhandled. A wrong password is still answered 401, and the only error passed to \<^verbatim>\<open>next\<close>
  is the one of the second response, not the one of the store.
\<close>

theorem save_failure_not_forwarded:
  "responses (login (store_of (account 3 None) (Some (StoreError ''write failed''))) (tick 1000)
      (post ''user@x.com'' ''Secret1!a'')) = [(200, AuthToken ''jwt.64f0c1'')]
   \<and> forwarded (login (store_of (account 3 None) (Some (StoreError ''write failed''))) (tick 1000)
      (post ''user@x.com'' ''Secret1!a'')) = []
   \<and> unhandled (login (store_of (account 3 None) (Some (StoreError ''write failed''))) (tick 1000)
      (post ''user@x.com'' ''Secret1!a'')) = [StoreError ''write failed'']
   \<and> responses (login (store_of (account 3 None) (Some (StoreError ''write failed''))) (tick 1000)
      (post ''user@x.com'' ''wrong'')) =
        [(401, Message ''Please try again, the email and password did not matched''),
         (401, Message ''Invalid username or password'')]
   \<and> forwarded (login (store_of (account 3 None) (Some (StoreError ''write failed''))) (tick 1000)
      (post ''user@x.com'' ''wrong'')) = [ERR_HTTP_HEADERS_SENT]"
  by (simp add: handler_defs)

subsection \<open>C9\<close>

text \<open>
  C9, as amended. A signup request passes the validation exactly when no field is the empty
  string, the email matches the email pattern, and the password has at least 8 characters,
  consists only of the letters \<^verbatim>\<open>A-Z\<close> and \<^verbatim>\<open>a-z\<close>, the digits and the symbols
  \<^verbatim>\<open>@$!%*?&\<close>, and contains at least one lowercase letter, one uppercase letter, one digit
  and one of these symbols. The witness shows that signup rejects \<^verbatim>\<open>short1!\<close> and accepts
  \<^verbatim>\<open>Valid1!x\<close>.
\<close>

theorem signup_accepts_iff:
  "(signup_validation r = None) =
     (new_email r \<noteq> Some [] \<and> new_password r \<noteq> Some [] \<and> new_name r \<noteq> Some []
      \<and> emailRegex_test (to_string (new_email r))
      \<and> 8 \<le> length (to_string (new_password r))
      \<and> list_all in_class (to_string (new_password r))
      \<and> list_ex is_lower (to_string (new_password r))
      \<and> list_ex is_upper (to_string (new_password r))
      \<and> list_ex is_digit (to_string (new_password r))
      \<and> list_ex is_symbol (to_string (new_password r)))"
  by (auto simp add: signup_validation_def passwordRegex_test_iff)

theorem signup_accepts_iff_witness:
  "signup_validation (signup_of ''short1!'') \<noteq> None
   \<and> signup_validation (signup_of ''Valid1!x'') = None"
  using signup_accepts_iff [of "signup_of ''short1!''"]
    signup_accepts_iff [of "signup_of ''Valid1!x''"]
  by (simp add: signup_defs class_defs)

text \<open>
  C9 as stated fails: \<^verbatim>\<open>Valid1!x#\<close> has 9 characters, a lowercase and an uppercase letter, a
  digit and a symbol of the set, and signup rejects it, since \<^verbatim>\<open>#\<close> is not in the class of
  the pattern.
\<close>

theorem password_with_other_symbol_counterexample:
  "8 \<le> length ''Valid1!x#'' \<and> list_ex is_lower ''Valid1!x#'' \<and> list_ex is_upper ''Valid1!x#''
   \<and> list_ex is_digit ''Valid1!x#'' \<and> list_ex is_symbol ''Valid1!x#''
   \<and> signup_validation (signup_of ''Valid1!x#'') = Some (400, Message
         ''Password must have at least 8 characters and contain at least one number, one symbol, one lowercase and one uppercase letter.'')"
  by (simp add: signup_validation_def passwordRegex_test_def signup_defs class_defs)

subsection \<open>C10\<close>

text \<open>
  C10: when a login request omits the email or the password (and no field is the empty
  string), the test for empty fields does not answer: no response has status 400 and the
  handler calls \<^verbatim>\<open>User.findOne\<close> with the email as it is. With an absent email for which the
  store finds no account, the only response is the 401 of the branch for no user.
\<close>

theorem absent_field_skips_validation:
  assumes "req_email r = None \<or> req_password r = None"
    and "req_email r \<noteq> Some ''''" and "req_password r \<noteq> Some ''''"
  shows "lookups (login env clk r) = [req_email r]
    \<and> 400 \<notin> fst ` set (responses (login env clk r))
    \<and> (req_email r = None \<longrightarrow> findOne env None = Inr None \<longrightarrow>
         responses (login env clk r) = [(401, Message ''User not found.'')])"
  using assms
  by (auto simp add: login_def on_found_def idle_def Let_def split: sum.splits option.splits)

theorem absent_field_skips_validation_witness:
  "findOne (store_of (account 0 None) None) None = Inr None
   \<and> lookups (login (store_of (account 0 None) None) (tick 1000)
      \<lparr>req_email = None, req_password = Some ''Secret1!a''\<rparr>) = [None]
   \<and> 400 \<notin> fst ` set (responses (login (store_of (account 0 None) None) (tick 1000)
      \<lparr>req_email = None, req_password = Some ''Secret1!a''\<rparr>))
   \<and> responses (login (store_of (account 0 None) None) (tick 1000)
      \<lparr>req_email = None, req_password = Some ''Secret1!a''\<rparr>) =
        [(401, Message ''User not found.'')]"
  using absent_field_skips_validation [of
      "\<lparr>req_email = None, req_password = Some ''Secret1!a''\<rparr>"
      "store_of (account 0 None) None" "tick 1000"]
  by (simp add: store_of_def account_def)

end
